theory Spec2Isabelle
  imports Complex_Main
begin

section \<open>LearnLoop front end: a shallow embedding\<close>

text \<open>
  The sources are the React/TypeScript front end of LearnLoop. JavaScript numbers that
  carry XP totals, levels, streaks and HTTP status codes are modelled as unbounded
  integers (\<open>int\<close>, \<open>nat\<close> for a status code): the values come from JSON integers
  far below \<open>2^53\<close>, where double arithmetic on integers is exact. \<open>Math.floor (x / 100)\<close>
  on an integer \<open>x\<close> is \<open>x div 100\<close> (both round towards minus infinity). Quotients
  that the code really computes as fractions are \<open>real\<close>.
\<close>

subsection \<open>Level title and profile polling (context/stats-context.tsx)\<close>

record Stats =
  level :: int
  total_xp :: int
  streak_days :: int
  buddyName :: string
  buddyAvatar :: string
  lastStudyDate :: "string option"

definition getLevelTitle :: "int \<Rightarrow> string" where
  "getLevelTitle lvl =
     (if lvl < 4 then ''Seedling''
      else if lvl < 8 then ''Sprout''
      else if lvl < 13 then ''Teenager''
      else if lvl < 17 then ''Expert''
      else ''Master'')"

text \<open>
  The body of \<open>GET /profile/<email>\<close>. \<open>data.buddy_name || "Buddy"\<close> takes the default
  when the field is missing or the empty string.
\<close>

record profile_data =
  d_level :: int
  d_total_xp :: int
  d_streak_days :: int
  d_buddy_name :: "string option"
  d_buddy_avatar :: "string option"
  d_last_study_date :: "string option"

definition or_default :: "string option \<Rightarrow> string \<Rightarrow> string" where
  "or_default v dflt = (case v of None \<Rightarrow> dflt | Some s \<Rightarrow> if s = [] then dflt else s)"

definition newStats_of :: "profile_data \<Rightarrow> Stats" where
  "newStats_of d =
     \<lparr> level = d_level d, total_xp = d_total_xp d, streak_days = d_streak_days d,
       buddyName = or_default (d_buddy_name d) ''Buddy'',
       buddyAvatar = or_default (d_buddy_avatar d) ''seedling'',
       lastStudyDate = d_last_study_date d \<rparr>"

text \<open>
  A notification passed to \<open>addNotification\<close>. The four calls have fixed titles and
  message templates; the constructor carries the value interpolated into the message:
  \<^item> \<open>XPGained n\<close>: title "XP Gained!", message "You earned n XP!";
  \<^item> \<open>LevelUp n\<close>: title "Level Up!", message "Congratulations! You've reached Level n!";
  \<^item> \<open>EvolutionPath t\<close>: title "Evolution Path!", message "Your Buddy has evolved into a t!";
  \<^item> \<open>StreakRise n\<close>: title "Streak Rise!", message "Your learning streak is now n days!".
\<close>

datatype notification =
    XPGained int
  | LevelUp int
  | EvolutionPath string
  | StreakRise int

text \<open>The four comparisons of \<open>fetchStats\<close> against the previously fetched stats, in order.\<close>

definition rise_notifications :: "Stats \<Rightarrow> Stats \<Rightarrow> notification list" where
  "rise_notifications prev newStats =
     (if total_xp newStats > total_xp prev
      then [XPGained (total_xp newStats - total_xp prev)] else [])
     @ (if level newStats > level prev then [LevelUp (level newStats)] else [])
     @ (let oldTitle = getLevelTitle (level prev);
            newTitle = getLevelTitle (level newStats)
        in if oldTitle \<noteq> newTitle \<and> level newStats > level prev
           then [EvolutionPath newTitle] else [])
     @ (if streak_days newStats > streak_days prev
        then [StreakRise (streak_days newStats)] else [])"

text \<open>
  The mutable cells of \<open>StatsProvider\<close>: the two refs and the \<open>stats\<close> state. One call of
  \<open>fetchStats\<close> either gets a successful response (\<open>res.ok\<close>, with its JSON body) or
  does nothing: no signed-in user, a response that is not ok, or an exception that the
  \<open>catch\<close> logs. All that follows the last \<open>await\<close> runs without interruption, so
  overlapping calls take effect one at a time, in the order their responses arrive.
\<close>

record provider_state =
  lastStatsRef :: "Stats option"
  isFirstLoad :: bool
  stats :: Stats

datatype fetch_outcome = NoUser | FetchThrew | NotOk | Ok profile_data

definition initial_provider :: provider_state where
  "initial_provider =
     \<lparr> lastStatsRef = None, isFirstLoad = True,
       stats = \<lparr> level = 1, total_xp = 0, streak_days = 0, buddyName = ''Buddy'',
                 buddyAvatar = ''seedling'', lastStudyDate = None \<rparr> \<rparr>"

fun fetchStats :: "provider_state \<Rightarrow> fetch_outcome \<Rightarrow> provider_state \<times> notification list" where
  "fetchStats st (Ok d) =
     (let newStats = newStats_of d;
          notes = (if \<not> isFirstLoad st
                   then (case lastStatsRef st of
                           Some prev \<Rightarrow> rise_notifications prev newStats
                         | None \<Rightarrow> [])
                   else [])
      in (st\<lparr> lastStatsRef := Some newStats, stats := newStats, isFirstLoad := False \<rparr>, notes))"
| "fetchStats st NoUser = (st, [])"
| "fetchStats st FetchThrew = (st, [])"
| "fetchStats st NotOk = (st, [])"

text \<open>The provider after a sequence of polls, and the last profile a poll fetched.\<close>

fun polls :: "provider_state \<Rightarrow> fetch_outcome list \<Rightarrow> provider_state" where
  "polls st [] = st"
| "polls st (r # rs) = polls (fst (fetchStats st r)) rs"

fun last_fetched :: "Stats option \<Rightarrow> fetch_outcome list \<Rightarrow> Stats option" where
  "last_fetched acc [] = acc"
| "last_fetched acc (Ok d # rs) = last_fetched (Some (newStats_of d)) rs"
| "last_fetched acc (_ # rs) = last_fetched acc rs"

text \<open>A profile body with the given level, total XP and streak, and no optional field.\<close>

definition profile_with :: "int \<Rightarrow> int \<Rightarrow> int \<Rightarrow> profile_data" where
  "profile_with lvl xp streak =
     \<lparr> d_level = lvl, d_total_xp = xp, d_streak_days = streak, d_buddy_name = None,
       d_buddy_avatar = None, d_last_study_date = None \<rparr>"

subsection \<open>XP level display (BuddyPage in components/BuddyAvatar.tsx)\<close>

definition correctLevel :: "int \<Rightarrow> int" where
  "correctLevel xp = min (1 + xp div 100) 1000"

definition currentLevelMinXP :: "int \<Rightarrow> int" where
  "currentLevelMinXP xp = (correctLevel xp - 1) * 100"

definition nextLevelMinXP :: "int \<Rightarrow> int" where
  "nextLevelMinXP xp =
     (if correctLevel xp \<ge> 1000 then currentLevelMinXP xp else correctLevel xp * 100)"

definition xpProgress :: "int \<Rightarrow> int" where
  "xpProgress xp = max 0 (xp - currentLevelMinXP xp)"

definition xpRequiredForLevel :: "int \<Rightarrow> int" where
  "xpRequiredForLevel xp = max 1 (nextLevelMinXP xp - currentLevelMinXP xp)"

text \<open>The \<open>value\<close> of the progress bar.\<close>

definition progressValue :: "int \<Rightarrow> real" where
  "progressValue xp =
     (if correctLevel xp \<ge> 1000 then 100
      else (real_of_int (xpProgress xp) / real_of_int (xpRequiredForLevel xp)) * 100)"

text \<open>The XP at which the page shows level \<open>n\<close>: \<open>(n - 1) * 100\<close>, as in \<open>currentLevelMinXP\<close>.\<close>

definition levelMinXP :: "int \<Rightarrow> int" where
  "levelMinXP n = (n - 1) * 100"

text \<open>
  The tiered table of the specification, in its words, to compare with \<open>correctLevel\<close>:
  thresholds 0, 500, 1200, 2500, 5000, 10000 for levels 1 to 6, and
  \<open>10000 + (n - 7) * 10000\<close> for a level \<open>n\<close> from 7 on.
\<close>

definition spec_threshold :: "int \<Rightarrow> int" where
  "spec_threshold n =
     (if n \<le> 1 then 0 else if n = 2 then 500 else if n = 3 then 1200
      else if n = 4 then 2500 else if n = 5 then 5000 else if n = 6 then 10000
      else 10000 + (n - 7) * 10000)"

subsection \<open>Material stage progress (BrainGrowingIndicator in components/BuddyAvatar.tsx)\<close>

text \<open>
  \<open>stageMap\<close> is an object literal, and \<open>stageMap[stage]\<close> is a JavaScript property read:
  it finds the four own properties, and for a name that \<open>Object.prototype\<close> defines it
  finds the inherited member (a function, or the prototype object for \<open>__proto__\<close>),
  which is truthy, so \<open>|| 0\<close> lets it through. Any other name reads \<open>undefined\<close> and
  gives 0. A result is therefore a number or an inherited member, named by its key.
\<close>

datatype js_value = Num int | Inherited string

definition stageMap :: "(string \<times> int) list" where
  "stageMap =
     [(''uploaded'', 0), (''buddy_taught'', 33), (''user_taught'', 66), (''mastered'', 100)]"

definition Object_prototype :: "string list" where
  "Object_prototype =
     [''constructor'', ''hasOwnProperty'', ''isPrototypeOf'', ''propertyIsEnumerable'',
      ''toLocaleString'', ''toString'', ''valueOf'', ''__proto__'',
      ''__defineGetter__'', ''__defineSetter__'', ''__lookupGetter__'', ''__lookupSetter__'']"

definition getStageProgress :: "string \<Rightarrow> js_value" where
  "getStageProgress stage =
     (case map_of stageMap stage of
        Some n \<Rightarrow> if n = 0 then Num 0 else Num n
      | None \<Rightarrow> if stage \<in> set Object_prototype then Inherited stage else Num 0)"

text \<open>
  \<open>materials.reduce((sum, m) => sum + getStageProgress(m.learning_stage || 'uploaded'), 0)
  / materials.length\<close>. A material is modelled by its \<open>learning_stage\<close> field
  (\<open>None\<close> when the field is missing). The sum stays a number as long as every
  summand is one; \<open>None\<close> stands for the sums an inherited member has entered, which
  JavaScript turns into a string.
\<close>

definition reducer :: "int option \<Rightarrow> string option \<Rightarrow> int option" where
  "reducer acc learning_stage =
     (case acc of
        None \<Rightarrow> None
      | Some sm \<Rightarrow>
          (case getStageProgress (or_default learning_stage ''uploaded'') of
             Num n \<Rightarrow> Some (sm + n)
           | Inherited k \<Rightarrow> None))"

definition totalProgress :: "string option list \<Rightarrow> real option" where
  "totalProgress materials =
     (if length materials > 0
      then (case foldl reducer (Some 0) materials of
              Some sm \<Rightarrow> Some (real_of_int sm / real (length materials))
            | None \<Rightarrow> None)
      else Some 0)"

text \<open>
  The evolution path of a material on the materials page orders the stages by their
  index in \<open>stageOrder\<close>; \<open>indexOf\<close> gives -1 for a string that is not in the array.
\<close>

definition stageOrder :: "string list" where
  "stageOrder = [''uploaded'', ''buddy_taught'', ''user_taught'', ''mastered'', ''expert'']"

fun indexOf :: "string list \<Rightarrow> string \<Rightarrow> int" where
  "indexOf [] x = -1"
| "indexOf (y # ys) x =
     (if y = x then 0 else (let i = indexOf ys x in if i < 0 then -1 else i + 1))"

subsection \<open>Replies to a chat request (BuddyChat.handleSubmit, BuddyAvatar.handleUserSpeech)\<close>

text \<open>An integer inside a template literal: its decimal digits, with a sign.\<close>

fun digits :: "nat \<Rightarrow> string" where
  "digits n =
     (if n < 10 then [''0123456789'' ! n]
      else digits (n div 10) @ [''0123456789'' ! (n mod 10)])"

definition js_number :: "int \<Rightarrow> string" where
  "js_number i = (if i < 0 then CHR ''-'' # digits (nat (- i)) else digits (nat i))"

text \<open>
  The value of a property of a JSON body, as far as \<open>||\<close> and a template literal look at
  it: \<open>null\<close>, a boolean, an integer (below \<open>10^21\<close> in size, so that it prints as its
  digits), a string, or anything else (a number with a fraction, an array, an object),
  which is truthy whatever it is and is given by the text a template literal prints for
  it.
\<close>

datatype json_value = JNull | JBool bool | JInt int | JString string | JOther string

fun truthy :: "json_value \<Rightarrow> bool" where
  "truthy JNull = False"
| "truthy (JBool b) = b"
| "truthy (JInt i) = (i \<noteq> 0)"
| "truthy (JString s) = (s \<noteq> [])"
| "truthy (JOther s) = True"

fun template :: "json_value \<Rightarrow> string" where
  "template JNull = ''null''"
| "template (JBool b) = (if b then ''true'' else ''false'')"
| "template (JInt i) = js_number i"
| "template (JString s) = s"
| "template (JOther s) = s"

text \<open>
  What \<open>fetch\<close> of \<open>/buddy/chat\<close> gives: it rejects (a network failure, with the
  error's text), or it resolves to a response with a status and a body. The body is not
  JSON (\<open>response.json()\<close> rejects), or the JSON value \<open>null\<close> (reading a property of it
  throws a TypeError), or any other JSON value. Of that value the code reads the property
  \<open>retry_after\<close> on a 429 (\<open>None\<close> when the value has no such property: the read gives
  \<open>undefined\<close>) and the property \<open>content\<close> on success (modelled where it is a string);
  the string in between stands for everything else the server or the AI provider put
  into the body.
\<close>

datatype response_body = NotJson | JsonNull | Json "json_value option" string "string option"

record chat_response =
  status :: nat
  body :: response_body

datatype chat_result = Rejected string | Responded chat_response

definition response_ok :: "chat_response \<Rightarrow> bool" where
  "response_ok r = (200 \<le> status r \<and> status r \<le> 299)"

text \<open>
  \<open>waitTime = errorData.retry_after || 60\<close>, for the \<open>retry_after\<close> property read off
  \<open>errorData\<close>: an undefined and a falsy value give 60.
\<close>

definition waitTime :: "json_value option \<Rightarrow> json_value" where
  "waitTime ra = (case ra of None \<Rightarrow> JInt 60 | Some v \<Rightarrow> if truthy v then v else JInt 60)"

text \<open>The smiling-face emoji U+1F60A of the chat message, as its UTF-8 bytes.\<close>

definition smile :: string where
  "smile = [CHR 0xF0, CHR 0x9F, CHR 0x98, CHR 0x8A]"

definition chat_breather :: "json_value \<Rightarrow> string" where
  "chat_breather w =
     ''Hey! I need a short breather '' @ smile
     @ '' I've been chatting a lot! Let's continue in about '' @ template w
     @ '' seconds. Take a moment to review what we've discussed!''"

definition chat_trouble :: string where
  "chat_trouble = ''Oops, I'm having trouble thinking right now. Can we try again?''"

text \<open>
  The content of the model message that \<open>BuddyChat.handleSubmit\<close> appends once the
  request has settled. On a 429, \<open>errorData = await response.json().catch(() => ({}))\<close>
  is the empty object when the body is not JSON; when the body is \<open>null\<close>, the read of
  \<open>errorData.retry_after\<close> throws inside the \<open>try\<close> and the \<open>catch\<close> appends the
  try-again message. On success the message appended is the body itself, shown by its
  \<open>content\<close> (\<open>None\<close> when there is none to show).
\<close>

definition handleSubmit_reply :: "chat_result \<Rightarrow> string option" where
  "handleSubmit_reply res =
     (case res of
        Rejected e \<Rightarrow> Some chat_trouble
      | Responded r \<Rightarrow>
          if \<not> response_ok r
          then (if status r = 429
                then (case body r of
                        NotJson \<Rightarrow> Some (chat_breather (waitTime None))
                      | JsonNull \<Rightarrow> Some chat_trouble
                      | Json ra dt ct \<Rightarrow> Some (chat_breather (waitTime ra)))
                else Some chat_trouble)
          else (case body r of
                  NotJson \<Rightarrow> Some chat_trouble
                | JsonNull \<Rightarrow> None
                | Json ra dt ct \<Rightarrow> ct))"

definition voice_breather :: "json_value \<Rightarrow> string" where
  "voice_breather w =
     ''I need a short breather! Let's continue in about '' @ template w @ '' seconds.''"

definition voice_trouble :: string where
  "voice_trouble = ''Oops, I'm having trouble thinking right now. Can you try again?''"

definition voice_unsure :: string where
  "voice_unsure = ''I'm not sure how to respond to that.''"

text \<open>
  The text \<open>BuddyAvatar.handleUserSpeech\<close> stores in \<open>lastResponse\<close> and speaks. The 429
  branch is as in the chat; on success \<open>data.content || "I'm not sure ..."\<close> throws on a
  \<open>null\<close> body, which the \<open>catch\<close> answers with the try-again text.
\<close>

definition handleUserSpeech_reply :: "chat_result \<Rightarrow> string" where
  "handleUserSpeech_reply res =
     (case res of
        Rejected e \<Rightarrow> voice_trouble
      | Responded r \<Rightarrow>
          if \<not> response_ok r
          then (if status r = 429
                then (case body r of
                        NotJson \<Rightarrow> voice_breather (waitTime None)
                      | JsonNull \<Rightarrow> voice_trouble
                      | Json ra dt ct \<Rightarrow> voice_breather (waitTime ra))
                else voice_trouble)
          else (case body r of
                  NotJson \<Rightarrow> voice_trouble
                | JsonNull \<Rightarrow> voice_trouble
                | Json ra dt ct \<Rightarrow> or_default ct voice_unsure))"

text \<open>A failed request: \<open>fetch\<close> rejected, or the response is not ok.\<close>

definition request_failed :: "chat_result \<Rightarrow> bool" where
  "request_failed res = (case res of Rejected e \<Rightarrow> True | Responded r \<Rightarrow> \<not> response_ok r)"

text \<open>A 429 response whose body is a JSON object with the given \<open>retry_after\<close> and detail.\<close>

definition failure_429 :: "json_value option \<Rightarrow> string \<Rightarrow> chat_result" where
  "failure_429 ra dt = Responded \<lparr> status = 429, body = Json ra dt None \<rparr>"

subsection \<open>The processing guard of the voice companion (BuddyAvatar)\<close>

text \<open>
  \<open>BuddyAvatar\<close> runs on the browser's event loop: each handler runs to its next
  \<open>await\<close> or to its end before another starts, so the component is a state machine
  over the events the browser delivers.

  \<open>handleUserSpeech\<close> is only ever called by \<open>recognition.onresult\<close>, which an effect
  with no dependencies installs once: it keeps calling the \<open>handleUserSpeech\<close> of the
  first render, where the state \<open>sessionId\<close> is \<open>null\<close> and \<open>setSessionId\<close> never
  reaches. So every call that passes the guard first posts \<open>/buddy/sessions\<close>, and sends
  its \<open>/buddy/chat\<close> request under the session that call created, or under no session
  when the creation failed or gave no id (\<open>data.session_id\<close> is falsy: missing or 0).

  The state keeps what the guard reads and what is pending:
  \<^item> \<open>user_email\<close>: \<open>user?.email\<close>;
  \<^item> \<open>synth_and_audio\<close>: \<open>synthRef.current\<close> is set and \<open>audioEnabled\<close> is true;
  \<^item> \<open>isProcessingRef\<close>: the ref of that name;
  \<^item> \<open>creating\<close>: the calls that passed the guard and await \<open>/buddy/sessions\<close>;
  \<^item> \<open>in_flight\<close>: the \<open>/buddy/chat\<close> requests awaiting their response, each by the
    session it was sent under (\<open>None\<close>: under no session);
  \<^item> \<open>speaking\<close>: the utterances handed to \<open>synth.speak\<close> whose \<open>onend\<close> or
    \<open>onerror\<close> has not fired yet.

  The events: \<open>UserSpeech\<close> is \<open>recognition.onresult\<close> calling \<open>handleUserSpeech\<close>;
  \<open>SessionSettled r\<close> settles one session creation, with the id of the body (\<open>None\<close>
  when the creation failed), and sends the chat request; \<open>ReplyOk s\<close>, \<open>Reply429 s\<close> and
  \<open>ReplyFailed s\<close> settle one request in flight under \<open>s\<close> (an ok response, a 429, any
  other failure or a rejected \<open>fetch\<close>); \<open>UtteranceEnd\<close> is the \<open>onend\<close> or \<open>onerror\<close>
  of one utterance (both handlers do the same to the ref). An event that cannot happen
  in a state (a reply with no such request in flight, an end with nothing spoken) leaves
  it unchanged. The retry of \<open>speak\<close> while the browser's voices are still loading only
  delays the hand-over of the utterance and is left out.
\<close>

record avatar_state =
  user_email :: "string option"
  synth_and_audio :: bool
  isProcessingRef :: bool
  creating :: nat
  in_flight :: "nat option list"
  speaking :: nat

datatype avatar_event =
    UserSpeech
  | SessionSettled "nat option"
  | ReplyOk "nat option"
  | Reply429 "nat option"
  | ReplyFailed "nat option"
  | UtteranceEnd

text \<open>\<open>if (data.session_id)\<close>: an id that is missing or 0 gives no session.\<close>

definition session_of :: "nat option \<Rightarrow> nat option" where
  "session_of r = (case r of None \<Rightarrow> None | Some n \<Rightarrow> if n = 0 then None else Some n)"

definition speak :: "avatar_state \<Rightarrow> avatar_state" where
  "speak st =
     (if synth_and_audio st then st\<lparr> speaking := speaking st + 1 \<rparr>
      else st\<lparr> isProcessingRef := False \<rparr>)"

fun avatar_step :: "avatar_state \<Rightarrow> avatar_event \<Rightarrow> avatar_state" where
  "avatar_step st UserSpeech =
     (if user_email st = None \<or> user_email st = Some [] \<or> isProcessingRef st then st
      else st\<lparr> isProcessingRef := True, creating := creating st + 1 \<rparr>)"
| "avatar_step st (SessionSettled r) =
     (if creating st = 0 then st
      else st\<lparr> creating := creating st - 1, in_flight := in_flight st @ [session_of r] \<rparr>)"
| "avatar_step st (ReplyOk s) =
     (if s \<in> set (in_flight st)
      then speak (st\<lparr> in_flight := remove1 s (in_flight st) \<rparr>)
      else st)"
| "avatar_step st (Reply429 s) =
     (if s \<in> set (in_flight st)
      then (speak (st\<lparr> in_flight := remove1 s (in_flight st) \<rparr>))\<lparr> isProcessingRef := False \<rparr>
      else st)"
| "avatar_step st (ReplyFailed s) =
     (if s \<in> set (in_flight st)
      then (speak (st\<lparr> in_flight := remove1 s (in_flight st) \<rparr>))\<lparr> isProcessingRef := False \<rparr>
      else st)"
| "avatar_step st UtteranceEnd =
     (if speaking st = 0 then st
      else st\<lparr> speaking := speaking st - 1, isProcessingRef := False \<rparr>)"

fun avatar_run :: "avatar_state \<Rightarrow> avatar_event list \<Rightarrow> avatar_state" where
  "avatar_run st [] = st"
| "avatar_run st (e # es) = avatar_run (avatar_step st e) es"

definition avatar_mounted :: avatar_state where
  "avatar_mounted =
     \<lparr> user_email = Some ''learner@example.org'', synth_and_audio = True,
       isProcessingRef = False, creating = 0, in_flight = [], speaking = 0 \<rparr>"



text \<open>A run in which no request has failed: it has neither a 429 nor another failure.\<close>

fun is_failure :: "avatar_event \<Rightarrow> bool" where
  "is_failure (Reply429 s) = True"
| "is_failure (ReplyFailed s) = True"
| "is_failure e = False"

definition no_failure :: "avatar_event list \<Rightarrow> bool" where
  "no_failure es = (filter is_failure es = [])"

text \<open>
  The guard as the success path keeps it: at most one call, request or utterance is
  pending, and the ref is set while one is.
\<close>

definition pending :: "avatar_state \<Rightarrow> nat" where
  "pending st = creating st + length (in_flight st) + speaking st"

definition guarded :: "avatar_state \<Rightarrow> bool" where
  "guarded st = (pending st \<le> 1 \<and> (pending st = 0 \<or> isProcessingRef st))"

subsection \<open>Confusion detector (specification, section 4.2)\<close>









subsection \<open>XP award (specification, section 4.3)\<close>

text \<open>
  Modelled from the spec: the base XP of each activity type. The gamification engine
  is not among the sources; the front end only reads the totals it stored.
\<close>

definition baseXP :: "(string \<times> int) list" where
  "baseXP =
     [(''explanation_completed'', 20), (''check_passed_first'', 50),
      (''check_passed_second'', 30), (''teach_back_success'', 100),
      (''topic_mastered'', 150)]"

text \<open>Modelled from the spec: the error of the gamification engine (section 7).\<close>

datatype gamification_error = UnknownActivityType

text \<open>Modelled from the spec: \<open>streakBonus = min(currentStreak, 10) * 10\<close>.\<close>

definition streakBonus :: "int \<Rightarrow> int" where
  "streakBonus currentStreak = min currentStreak 10 * 10"

text \<open>Modelled from the spec: \<open>perfectBonus = perfectSession ? 50 : 0\<close>.\<close>

definition perfectBonus :: "bool \<Rightarrow> int" where
  "perfectBonus perfectSession = (if perfectSession then 50 else 0)"

text \<open>
  Modelled from the spec: \<open>totalXPDelta = baseXP[activityType] + streakBonus + perfectBonus\<close>,
  failing with \<open>UnknownActivityType\<close> outside the known set.
\<close>

definition totalXPDelta :: "string \<Rightarrow> int \<Rightarrow> bool \<Rightarrow> gamification_error + int" where
  "totalXPDelta activityType currentStreak perfectSession =
     (case map_of baseXP activityType of
        None \<Rightarrow> Inl UnknownActivityType
      | Some base \<Rightarrow> Inr (base + streakBonus currentStreak + perfectBonus perfectSession))"

section \<open>Properties\<close>

subsection \<open>Level from total XP\<close>

lemma correctLevel_bounds: "0 \<le> xp \<Longrightarrow> 1 \<le> correctLevel xp \<and> correctLevel xp \<le> 1000"
  unfolding correctLevel_def by simp

text \<open>
  C1, as amended. The level the buddy page derives from a non-negative \<open>total_xp\<close> is
  the largest level \<open>n\<close> between 1 and 1000 whose threshold \<open>(n - 1) * 100\<close> is at most
  \<open>total_xp\<close>: a linear scheme of 100 XP per level, capped at 1000. In particular
  500 XP is level 6 and 499 XP is level 5.
\<close>

theorem correctLevel_largest_linear_level:
  assumes "0 \<le> xp"
  shows "1 \<le> correctLevel xp \<and> correctLevel xp \<le> 1000
       \<and> levelMinXP (correctLevel xp) \<le> xp
       \<and> (\<forall>n. 1 \<le> n \<and> n \<le> 1000 \<and> levelMinXP n \<le> xp \<longrightarrow> n \<le> correctLevel xp)
       \<and> correctLevel 500 = 6 \<and> correctLevel 499 = 5"
proof -
  have a: "1 \<le> correctLevel xp \<and> correctLevel xp \<le> 1000"
    using assms by (rule correctLevel_bounds)
  have b: "levelMinXP (correctLevel xp) \<le> xp"
    using assms unfolding levelMinXP_def correctLevel_def by (simp add: min_def) presburger
  have c: "n \<le> correctLevel xp" if "1 \<le> n" "n \<le> 1000" "levelMinXP n \<le> xp" for n
  proof -
    from that(3) have "(n - 1) * 100 \<le> xp" by (simp add: levelMinXP_def)
    then have "n - 1 \<le> xp div 100"
      by (simp add: zdiv_mono1 [of "(n - 1) * 100" xp 100, simplified])
    with that(2) show ?thesis by (simp add: correctLevel_def)
  qed
  have d: "correctLevel 500 = 6 \<and> correctLevel 499 = 5"
    by (simp add: correctLevel_def)
  from a b c d show ?thesis by blast
qed

text \<open>At 730 XP: the level is 8, its threshold 700 is reached, and level 8 is not above it.\<close>

theorem correctLevel_largest_linear_level_witness:
  "(0::int) \<le> 730 \<and> 1 \<le> correctLevel 730 \<and> correctLevel 730 \<le> 1000
   \<and> levelMinXP (correctLevel 730) \<le> 730
   \<and> ((1::int) \<le> 8 \<and> (8::int) \<le> 1000 \<and> levelMinXP 8 \<le> 730) \<and> 8 \<le> correctLevel 730"
  using correctLevel_largest_linear_level [of 730]
  by (simp add: levelMinXP_def)

text \<open>
  C1 as stated fails: at 500 XP the page shows level 6, not 2, and at 499 XP level 5,
  not 1; the tiered threshold of level 6 (10000) is not even reached at 500 XP.
\<close>

theorem tiered_level_counterexample:
  "correctLevel 500 \<noteq> 2 \<and> correctLevel 499 \<noteq> 1 \<and> \<not> spec_threshold (correctLevel 500) \<le> 500"
  by (simp add: correctLevel_def spec_threshold_def)

subsection \<open>Level title\<close>

text \<open>
  C2, as amended. The title is a function of the level alone, with the code's stages and
  cut points: a level below 4 is Seedling, 4 to 7 Sprout, 8 to 12 Teenager, 13 to 16
  Expert, and 17 or more Master.
\<close>

theorem getLevelTitle_ranges:
  "(getLevelTitle lvl = ''Seedling'' \<longleftrightarrow> lvl < 4)
   \<and> (getLevelTitle lvl = ''Sprout'' \<longleftrightarrow> 4 \<le> lvl \<and> lvl < 8)
   \<and> (getLevelTitle lvl = ''Teenager'' \<longleftrightarrow> 8 \<le> lvl \<and> lvl < 13)
   \<and> (getLevelTitle lvl = ''Expert'' \<longleftrightarrow> 13 \<le> lvl \<and> lvl < 17)
   \<and> (getLevelTitle lvl = ''Master'' \<longleftrightarrow> 17 \<le> lvl)"
  unfolding getLevelTitle_def by simp

text \<open>
  C2 as stated fails: level 3 is Seedling and not Sprout, levels 5 and 7 are Sprout (the
  code has no Sapling and no Tree), and level 10 is Teenager, not Master.
\<close>

theorem stage_mapping_counterexample:
  "getLevelTitle 3 \<noteq> ''Sprout'' \<and> getLevelTitle 5 \<noteq> ''Sapling''
   \<and> getLevelTitle 7 \<noteq> ''Tree'' \<and> getLevelTitle 10 \<noteq> ''Master''"
  by (simp add: getLevelTitle_def)

subsection \<open>XP progress bar\<close>

text \<open>
  C9. For every non-negative \<open>total_xp\<close> the progress shown is at least 0 and the XP
  required for the level at least 1, so the ratio never divides by zero; the level
  never exceeds 1000, and at level 1000 the bar's value is exactly 100.
\<close>

theorem xp_progress_defined:
  assumes "0 \<le> xp"
  shows "0 \<le> xpProgress xp \<and> 1 \<le> xpRequiredForLevel xp \<and> xpRequiredForLevel xp \<noteq> 0
       \<and> correctLevel xp \<le> 1000
       \<and> (correctLevel xp = 1000 \<longrightarrow> progressValue xp = 100)"
  using correctLevel_bounds [OF assms]
  by (simp add: xpProgress_def xpRequiredForLevel_def progressValue_def)

text \<open>At 100000 XP the level is the cap and the bar is full.\<close>

theorem xp_progress_defined_witness:
  "(0::int) \<le> 100000 \<and> correctLevel 100000 = 1000 \<and> progressValue 100000 = 100
   \<and> 0 \<le> xpProgress 100000 \<and> 1 \<le> xpRequiredForLevel 100000"
  using xp_progress_defined [of 100000]
  by (simp add: correctLevel_def)

subsection \<open>Notifications of the profile poll\<close>

lemma polls_lastStatsRef:
  "lastStatsRef (polls st rs) = last_fetched (lastStatsRef st) rs"
proof (induction rs arbitrary: st)
  case Nil
  show ?case by simp
next
  case (Cons r rs)
  show ?case by (cases r) (simp_all add: Cons.IH Let_def)
qed

lemma polls_isFirstLoad:
  "isFirstLoad st = (lastStatsRef st = None) \<Longrightarrow>
   isFirstLoad (polls st rs) = (lastStatsRef (polls st rs) = None)"
proof (induction rs arbitrary: st)
  case Nil
  then show ?case by simp
next
  case (Cons r rs)
  have "isFirstLoad (fst (fetchStats st r)) = (lastStatsRef (fst (fetchStats st r)) = None)"
    using Cons.prems by (cases r) (simp_all add: Let_def)
  from Cons.IH [OF this] show ?case by simp
qed

text \<open>
  After any sequence of polls since mounting, the next successful poll compares with the
  last profile fetched, and notifies nothing when there is none.
\<close>

lemma fetchStats_after_polls:
  "snd (fetchStats (polls initial_provider rs) (Ok d)) =
     (case last_fetched None rs of
        None \<Rightarrow> []
      | Some prev \<Rightarrow> rise_notifications prev (newStats_of d))"
proof -
  have l: "lastStatsRef (polls initial_provider rs) = last_fetched None rs"
    using polls_lastStatsRef [of initial_provider rs] by (simp add: initial_provider_def)
  have f: "isFirstLoad (polls initial_provider rs) = (last_fetched None rs = None)"
    using polls_isFirstLoad [of initial_provider rs] l by (simp add: initial_provider_def)
  show ?thesis
    by (cases "last_fetched None rs") (simp_all add: Let_def l f)
qed

lemma XPGained_in_rise:
  "XPGained a \<in> set (rise_notifications prev new) \<longleftrightarrow>
     total_xp prev < total_xp new \<and> a = total_xp new - total_xp prev"
  by (auto simp add: rise_notifications_def Let_def)

lemma EvolutionPath_in_rise:
  "EvolutionPath t \<in> set (rise_notifications prev new) \<longleftrightarrow>
     getLevelTitle (level prev) \<noteq> getLevelTitle (level new) \<and> level prev < level new
     \<and> t = getLevelTitle (level new)"
  by (auto simp add: rise_notifications_def Let_def)

text \<open>
  C8. After any history of polls, a successful poll announces "XP gained" with an amount
  exactly when a profile was fetched before, the new \<open>total_xp\<close> is strictly above the
  one fetched last, and the amount is their difference; when no profile was fetched
  before (the first successful fetch) it announces nothing at all.
\<close>

theorem xp_notification_iff_rise:
  "(XPGained amount \<in> set (snd (fetchStats (polls initial_provider rs) (Ok d))) \<longleftrightarrow>
     (\<exists>prev. last_fetched None rs = Some prev \<and> total_xp prev < d_total_xp d
        \<and> amount = d_total_xp d - total_xp prev))
   \<and> (last_fetched None rs = None \<longrightarrow> snd (fetchStats (polls initial_provider rs) (Ok d)) = [])"
  unfolding fetchStats_after_polls
  by (cases "last_fetched None rs") (simp_all add: XPGained_in_rise newStats_of_def)

text \<open>
  From 480 XP to 730 XP, with a failed poll in between, 250 XP are announced; after two
  polls that fetched nothing, the first successful one is silent.
\<close>

theorem xp_notification_iff_rise_witness:
  "XPGained 250 \<in> set (snd (fetchStats (polls initial_provider [Ok (profile_with 5 480 5), NotOk])
                                (Ok (profile_with 8 730 5))))
   \<and> last_fetched None [Ok (profile_with 5 480 5), NotOk] = Some (newStats_of (profile_with 5 480 5))
   \<and> total_xp (newStats_of (profile_with 5 480 5)) < d_total_xp (profile_with 8 730 5)
   \<and> last_fetched None [NoUser, FetchThrew] = None
   \<and> snd (fetchStats (polls initial_provider [NoUser, FetchThrew]) (Ok (profile_with 8 730 5))) = []"
  using xp_notification_iff_rise [of 250 "[Ok (profile_with 5 480 5), NotOk]" "profile_with 8 730 5"]
    xp_notification_iff_rise [of 250 "[NoUser, FetchThrew]" "profile_with 8 730 5"]
  by (simp add: profile_with_def newStats_of_def)

text \<open>
  C4. After any history of polls, a successful poll fires the evolution notification
  only when a profile was fetched before and the title mapped from the new level
  differs from the title mapped from the previous level; when the two titles are equal
  it never fires.
\<close>

theorem evolution_only_on_title_change:
  "(EvolutionPath t \<in> set (snd (fetchStats (polls initial_provider rs) (Ok d))) \<longrightarrow>
      (\<exists>prev. last_fetched None rs = Some prev
         \<and> getLevelTitle (level prev) \<noteq> getLevelTitle (d_level d)))
   \<and> (\<forall>prev. last_fetched None rs = Some prev
         \<and> getLevelTitle (level prev) = getLevelTitle (d_level d) \<longrightarrow>
       EvolutionPath t \<notin> set (snd (fetchStats (polls initial_provider rs) (Ok d))))"
  unfolding fetchStats_after_polls
  by (cases "last_fetched None rs") (simp_all add: EvolutionPath_in_rise newStats_of_def)

text \<open>
  From level 3 to level 4 the title changes and the notification fires; from level 3 to
  level 2 the title stays Seedling and it does not.
\<close>

theorem evolution_only_on_title_change_witness:
  "EvolutionPath ''Sprout'' \<in> set (snd (fetchStats (polls initial_provider [Ok (profile_with 3 300 1)])
                                      (Ok (profile_with 4 390 1))))
   \<and> last_fetched None [Ok (profile_with 3 300 1)] = Some (newStats_of (profile_with 3 300 1))
   \<and> getLevelTitle (level (newStats_of (profile_with 3 300 1))) \<noteq> getLevelTitle (d_level (profile_with 4 390 1))
   \<and> getLevelTitle (level (newStats_of (profile_with 3 300 1))) = getLevelTitle (d_level (profile_with 2 390 1))
   \<and> EvolutionPath ''Seedling'' \<notin> set (snd (fetchStats (polls initial_provider [Ok (profile_with 3 300 1)])
                                      (Ok (profile_with 2 390 1))))"
  using evolution_only_on_title_change [of "''Sprout''" "[Ok (profile_with 3 300 1)]" "profile_with 4 390 1"]
    evolution_only_on_title_change [of "''Seedling''" "[Ok (profile_with 3 300 1)]" "profile_with 2 390 1"]
  by (simp add: profile_with_def newStats_of_def getLevelTitle_def initial_provider_def
      rise_notifications_def Let_def)

subsection \<open>The scenario of 480 XP and a mastered topic\<close>

text \<open>
  C3, as amended. From 480 XP, a \<open>topic_mastered\<close> event with a streak of 5 and a perfect
  session gives exactly 250 XP (150 + 50 + 50), so the total becomes 730. The level the
  front end derives goes from 5 to 8, the title from Sprout to Teenager, and the poll that
  sees the new profile fires exactly one evolution notification, after one XP
  notification of 250 and one level-up notification.
\<close>

theorem scenario_480_topic_mastered:
  "totalXPDelta ''topic_mastered'' 5 True = Inr 250 \<and> (480::int) + 250 = 730
   \<and> map_of baseXP ''topic_mastered'' = Some 150 \<and> streakBonus 5 = 50
   \<and> perfectBonus True = 50
   \<and> correctLevel 480 = 5 \<and> correctLevel 730 = 8
   \<and> getLevelTitle (correctLevel 480) = ''Sprout''
   \<and> getLevelTitle (correctLevel 730) = ''Teenager''
   \<and> snd (fetchStats (polls initial_provider [Ok (profile_with (correctLevel 480) 480 5)])
                      (Ok (profile_with (correctLevel 730) 730 5)))
       = [XPGained 250, LevelUp 8, EvolutionPath ''Teenager'']"
  by (simp add: totalXPDelta_def baseXP_def streakBonus_def perfectBonus_def correctLevel_def
      getLevelTitle_def profile_with_def newStats_of_def initial_provider_def
      rise_notifications_def Let_def)

text \<open>
  C3 as stated fails: the level derived from 730 XP is not 2; and were the levels 1 and
  then 2, as the claim has them, both map to Seedling and the poll fires the XP and the
  level-up notification only, no evolution notification.
\<close>

theorem scenario_480_counterexample:
  "correctLevel 730 \<noteq> 2 \<and> getLevelTitle 1 = ''Seedling'' \<and> getLevelTitle 2 = ''Seedling''
   \<and> snd (fetchStats (polls initial_provider [Ok (profile_with 1 480 5)])
                      (Ok (profile_with 2 730 5)))
       = [XPGained 250, LevelUp 2]"
  by (simp add: correctLevel_def
      getLevelTitle_def profile_with_def newStats_of_def initial_provider_def
      rise_notifications_def Let_def)

subsection \<open>Material stage progress\<close>

text \<open>
  What the table and its default give. The function returns a value for every stage
  string: 100 for mastered, 66 for user_taught, 33 for buddy_taught, 0 for uploaded, and
  0 for every other string that is not the name of a member inherited from
  \<open>Object.prototype\<close>. That includes expert, which the materials page orders beyond
  mastered and which adds 0 to the sum behind the brain-growth percentage: a mastered
  and an expert material average to 50.
\<close>

lemma getStageProgress_table:
  "getStageProgress ''mastered'' = Num 100
   \<and> getStageProgress ''user_taught'' = Num 66
   \<and> getStageProgress ''buddy_taught'' = Num 33
   \<and> getStageProgress ''uploaded'' = Num 0
   \<and> getStageProgress ''expert'' = Num 0
   \<and> (stage \<notin> {''mastered'', ''user_taught'', ''buddy_taught''}
        \<and> stage \<notin> set Object_prototype \<longrightarrow> getStageProgress stage = Num 0)
   \<and> indexOf stageOrder ''mastered'' < indexOf stageOrder ''expert''
   \<and> reducer (Some acc) (Some ''expert'') = Some acc
   \<and> totalProgress [Some ''mastered'', Some ''expert''] = Some 50"
proof -
  have fixed: "getStageProgress ''mastered'' = Num 100 \<and> getStageProgress ''user_taught'' = Num 66
     \<and> getStageProgress ''buddy_taught'' = Num 33 \<and> getStageProgress ''uploaded'' = Num 0
     \<and> getStageProgress ''expert'' = Num 0"
    by (simp add: getStageProgress_def stageMap_def Object_prototype_def)
  have other: "getStageProgress stage = Num 0"
    if "stage \<notin> {''mastered'', ''user_taught'', ''buddy_taught''}" "stage \<notin> set Object_prototype"
    using that by (simp add: getStageProgress_def stageMap_def)
  have ord: "indexOf stageOrder ''mastered'' < indexOf stageOrder ''expert''"
    by (simp add: stageOrder_def)
  have red: "reducer (Some acc) (Some ''expert'') = Some acc"
    using fixed by (simp add: reducer_def or_default_def)
  have tot: "totalProgress [Some ''mastered'', Some ''expert''] = Some 50"
    using fixed by (simp add: totalProgress_def reducer_def or_default_def)
  from fixed other ord red tot show ?thesis by blast
qed

text \<open>The stages expert and archived are neither in the table nor inherited: both give 0.\<close>

lemma getStageProgress_table_example:
  "''expert'' \<notin> {''mastered'', ''user_taught'', ''buddy_taught''}
   \<and> ''expert'' \<notin> set Object_prototype
   \<and> getStageProgress ''expert'' = Num 0
   \<and> ''archived'' \<notin> {''mastered'', ''user_taught'', ''buddy_taught''}
   \<and> ''archived'' \<notin> set Object_prototype
   \<and> getStageProgress ''archived'' = Num 0"
  using getStageProgress_table [of "''expert''"] getStageProgress_table [of "''archived''"]
  by (simp add: Object_prototype_def)

text \<open>
  C10 does not hold of the code for every stage string. The claim has the function return
  0 for every stage other than the four of the table; for the stage string constructor
  (or toString) the property read finds the member inherited from \<open>Object.prototype\<close>,
  the default \<open>|| 0\<close> does not apply to it, and the function returns the member instead
  of 0; the sum over the materials is then no number any more.
\<close>

theorem getStageProgress_inherited_member:
  "getStageProgress ''constructor'' = Inherited ''constructor''
   \<and> getStageProgress ''constructor'' \<noteq> Num 0
   \<and> getStageProgress ''toString'' \<noteq> Num 0
   \<and> totalProgress [Some ''mastered'', Some ''constructor''] = None"
  by (simp add: getStageProgress_def stageMap_def Object_prototype_def totalProgress_def
      reducer_def or_default_def)

subsection \<open>Confusion score\<close>





subsection \<open>Messages after a failed chat request\<close>

text \<open>
  C6, as amended. For every failed request that is not a 429 (a rejected fetch, or any
  other status that is not ok), the chat and the voice companion show their fixed
  try-again message, whatever the status, the body or the error; so they do for a 429
  whose body is the JSON value \<open>null\<close>. For any other 429 they show their fixed
  rate-limit message with a wait time filled in: the \<open>retry_after\<close> property of the
  body as a template literal prints it, when the body is JSON, has the property and its
  value is truthy; and 60 otherwise (the body is not JSON, has no such property, or the
  value is \<open>null\<close>, \<open>false\<close>, 0 or the empty string).
\<close>

theorem failed_request_replies:
  "(handleSubmit_reply (Rejected e) = Some chat_trouble
      \<and> handleUserSpeech_reply (Rejected e) = voice_trouble)
   \<and> (\<not> response_ok r \<and> status r \<noteq> 429 \<longrightarrow>
        handleSubmit_reply (Responded r) = Some chat_trouble
        \<and> handleUserSpeech_reply (Responded r) = voice_trouble)
   \<and> (status r = 429 \<and> body r = JsonNull \<longrightarrow>
        handleSubmit_reply (Responded r) = Some chat_trouble
        \<and> handleUserSpeech_reply (Responded r) = voice_trouble)
   \<and> (status r = 429 \<and> (body r = NotJson \<or> body r = Json None dt ct) \<longrightarrow>
        handleSubmit_reply (Responded r) = Some (chat_breather (JInt 60))
        \<and> handleUserSpeech_reply (Responded r) = voice_breather (JInt 60))
   \<and> (status r = 429 \<and> body r = Json (Some v) dt ct \<and> v \<in> {JNull, JBool False, JInt 0, JString []} \<longrightarrow>
        handleSubmit_reply (Responded r) = Some (chat_breather (JInt 60))
        \<and> handleUserSpeech_reply (Responded r) = voice_breather (JInt 60))
   \<and> (status r = 429 \<and> body r = Json (Some v) dt ct \<and> v \<notin> {JNull, JBool False, JInt 0, JString []} \<longrightarrow>
        handleSubmit_reply (Responded r) = Some (chat_breather v)
        \<and> handleUserSpeech_reply (Responded r) = voice_breather v)
   \<and> chat_breather (JInt 60)
        = ''Hey! I need a short breather '' @ smile
          @ '' I've been chatting a lot! Let's continue in about 60 seconds. Take a moment to review what we've discussed!''
   \<and> voice_breather (JInt 60) = ''I need a short breather! Let's continue in about 60 seconds.''
   \<and> voice_breather v = ''I need a short breather! Let's continue in about '' @ template v @ '' seconds.''
   \<and> template (JInt 30) = ''30''"
proof -
  have rej: "handleSubmit_reply (Rejected e) = Some chat_trouble
      \<and> handleUserSpeech_reply (Rejected e) = voice_trouble"
    by (simp add: handleSubmit_reply_def handleUserSpeech_reply_def)
  have other: "handleSubmit_reply (Responded r) = Some chat_trouble
        \<and> handleUserSpeech_reply (Responded r) = voice_trouble"
    if "\<not> response_ok r" "status r \<noteq> 429"
    using that by (simp add: handleSubmit_reply_def handleUserSpeech_reply_def)
  have ok429: "\<not> response_ok r" if "status r = 429"
    using that by (simp add: response_ok_def)
  have null: "handleSubmit_reply (Responded r) = Some chat_trouble
        \<and> handleUserSpeech_reply (Responded r) = voice_trouble"
    if "status r = 429" "body r = JsonNull"
    using that ok429 by (simp add: handleSubmit_reply_def handleUserSpeech_reply_def)
  have none: "handleSubmit_reply (Responded r) = Some (chat_breather (JInt 60))
        \<and> handleUserSpeech_reply (Responded r) = voice_breather (JInt 60)"
    if "status r = 429" "body r = NotJson \<or> body r = Json None dt ct"
    using that ok429
    by (auto simp add: handleSubmit_reply_def handleUserSpeech_reply_def waitTime_def)
  have falsy: "handleSubmit_reply (Responded r) = Some (chat_breather (JInt 60))
        \<and> handleUserSpeech_reply (Responded r) = voice_breather (JInt 60)"
    if "status r = 429" "body r = Json (Some v) dt ct" "v \<in> {JNull, JBool False, JInt 0, JString []}"
    using that ok429
    by (auto simp add: handleSubmit_reply_def handleUserSpeech_reply_def waitTime_def)
  have tr: "truthy v" if "v \<notin> {JNull, JBool False, JInt 0, JString []}"
    using that by (cases v) auto
  have truthy: "handleSubmit_reply (Responded r) = Some (chat_breather v)
        \<and> handleUserSpeech_reply (Responded r) = voice_breather v"
    if "status r = 429" "body r = Json (Some v) dt ct" "v \<notin> {JNull, JBool False, JInt 0, JString []}"
    using that(1,2) ok429 tr [OF that(3)]
    by (simp add: handleSubmit_reply_def handleUserSpeech_reply_def waitTime_def)
  have c60: "chat_breather (JInt 60)
        = ''Hey! I need a short breather '' @ smile
          @ '' I've been chatting a lot! Let's continue in about 60 seconds. Take a moment to review what we've discussed!''"
    by (simp add: chat_breather_def js_number_def)
  have v60: "voice_breather (JInt 60) = ''I need a short breather! Let's continue in about 60 seconds.''"
    by (simp add: voice_breather_def js_number_def)
  have vv: "voice_breather v = ''I need a short breather! Let's continue in about '' @ template v @ '' seconds.''"
    by (simp add: voice_breather_def)
  have t30: "template (JInt 30) = ''30''"
    by (simp add: js_number_def)
  from rej other null none falsy truthy c60 v60 vv t30 show ?thesis by blast
qed

text \<open>
  A 503 with a provider detail gives the try-again messages, and so does a 429 with the
  body \<open>null\<close>; a 429 with no JSON body or with \<open>retry_after = 0\<close> announces 60 seconds,
  one with \<open>retry_after = 30\<close> announces 30.
\<close>

theorem failed_request_replies_witness:
  "\<not> response_ok \<lparr> status = 503, body = Json (Some (JInt 30)) ''upstream model overloaded'' None \<rparr>
   \<and> status \<lparr> status = 503, body = Json (Some (JInt 30)) ''upstream model overloaded'' None \<rparr> \<noteq> 429
   \<and> handleSubmit_reply
        (Responded \<lparr> status = 503, body = Json (Some (JInt 30)) ''upstream model overloaded'' None \<rparr>)
       = Some chat_trouble
   \<and> handleUserSpeech_reply (Responded \<lparr> status = 429, body = JsonNull \<rparr>) = voice_trouble
   \<and> handleUserSpeech_reply (Responded \<lparr> status = 429, body = NotJson \<rparr>)
       = ''I need a short breather! Let's continue in about 60 seconds.''
   \<and> JInt 0 \<in> {JNull, JBool False, JInt 0, JString []}
   \<and> handleUserSpeech_reply (failure_429 (Some (JInt 0)) ''quota'')
       = ''I need a short breather! Let's continue in about 60 seconds.''
   \<and> JInt 30 \<notin> {JNull, JBool False, JInt 0, JString []}
   \<and> handleUserSpeech_reply (failure_429 (Some (JInt 30)) ''quota'')
       = ''I need a short breather! Let's continue in about 30 seconds.''"
  using
    failed_request_replies
      [of _ "\<lparr> status = 503, body = Json (Some (JInt 30)) ''upstream model overloaded'' None \<rparr>"]
    failed_request_replies [of _ "\<lparr> status = 429, body = JsonNull \<rparr>"]
    failed_request_replies [of _ "\<lparr> status = 429, body = NotJson \<rparr>"]
    failed_request_replies
      [of _ "\<lparr> status = 429, body = Json (Some (JInt 0)) ''quota'' None \<rparr>" "''quota''" None "JInt 0"]
    failed_request_replies
      [of _ "\<lparr> status = 429, body = Json (Some (JInt 30)) ''quota'' None \<rparr>" "''quota''" None "JInt 30"]
  by (simp add: response_ok_def failure_429_def js_number_def)

text \<open>
  C6 as stated fails: a request that failed with a 429 is answered with a message that is
  not the try-again message and that changes with the \<open>retry_after\<close> value of the error
  body, which it spells out.
\<close>

theorem retry_after_exposed_counterexample:
  "request_failed (failure_429 (Some (JInt 30)) ''quota'')
   \<and> handleSubmit_reply (failure_429 (Some (JInt 30)) ''quota'') \<noteq> Some chat_trouble
   \<and> handleSubmit_reply (failure_429 (Some (JInt 30)) ''quota'')
       \<noteq> handleSubmit_reply (failure_429 (Some (JInt 45)) ''quota'')
   \<and> handleUserSpeech_reply (failure_429 (Some (JInt 30)) ''quota'')
       = ''I need a short breather! Let's continue in about 30 seconds.''
   \<and> handleUserSpeech_reply (failure_429 (Some (JInt 45)) ''quota'')
       = ''I need a short breather! Let's continue in about 45 seconds.''"
  by (simp add: request_failed_def response_ok_def failure_429_def handleSubmit_reply_def
      handleUserSpeech_reply_def chat_breather_def chat_trouble_def voice_breather_def
      waitTime_def js_number_def smile_def)

subsection \<open>Requests in flight in the voice companion\<close>

text \<open>While the ref is set, speech starts nothing.\<close>

lemma guard_blocks_while_processing:
  "isProcessingRef st \<Longrightarrow> avatar_step st UserSpeech = st"
  by simp

lemma guarded_step:
  "guarded st \<Longrightarrow> \<not> is_failure e \<Longrightarrow> guarded (avatar_step st e)"
proof (cases e)
  case (ReplyOk s)
  assume g: "guarded st"
  show ?thesis
  proof (cases "s \<in> set (in_flight st)")
    case True
    then have l: "length (remove1 s (in_flight st)) = length (in_flight st) - 1"
      by (simp add: length_remove1)
    from True have p: "0 < length (in_flight st)"
      by (rule length_pos_if_in_set)
    from g have g1: "creating st + length (in_flight st) + speaking st \<le> 1"
      and g2: "creating st + length (in_flight st) + speaking st = 0 \<or> isProcessingRef st"
      by (simp_all add: guarded_def pending_def)
    from p g1 have c: "creating st = 0" and sp: "speaking st = 0"
      and n: "length (in_flight st) = 1"
      by arith+
    from p g2 have proc: "isProcessingRef st" by arith
    from True ReplyOk l c sp n proc show ?thesis
      by (simp add: guarded_def pending_def speak_def)
  next
    case False
    with g ReplyOk show ?thesis by simp
  qed
qed (auto simp add: guarded_def pending_def simp del: length_0_conv length_greater_0_conv)

lemma guarded_run:
  "guarded st \<Longrightarrow> no_failure es \<Longrightarrow> guarded (avatar_run st es)"
proof (induction es arbitrary: st)
  case Nil
  then show ?case by simp
next
  case (Cons e es)
  from Cons.prems(2) have e: "\<not> is_failure e" and es: "no_failure es"
    by (auto simp add: no_failure_def split: if_splits)
  from guarded_step [OF Cons.prems(1) e] Cons.IH es show ?case by simp
qed

text \<open>
  Across the whole component the guard serializes on the success path: as long as no
  request has failed, at most one call, request or utterance is pending.
\<close>

lemma serial_without_failure:
  "no_failure es \<Longrightarrow> pending (avatar_run avatar_mounted es) \<le> 1"
proof -
  assume nf: "no_failure es"
  have "guarded avatar_mounted" by (simp add: guarded_def pending_def avatar_mounted_def)
  from guarded_run [OF this nf] show ?thesis by (simp add: guarded_def)
qed











end
